theory Spec2Isabelle
  imports Main
begin

section \<open>The documentation extension \<open>doc/ext/local.py\<close>\<close>

text \<open>
  The module defines one role function, \<open>make_github_link\<close>, one domain class,
  \<open>SWOCDomain\<close>, and the entry point \<open>setup\<close>. Everything else it touches belongs to
  Python's library (\<open>os.path.basename\<close>, \<open>str.format\<close>), to docutils (\<open>nodes\<close>,
  \<open>rst.roles\<close>) or to Sphinx (the application object); those parts are modelled here as far
  as the module uses them.

  Strings are \<open>char list\<close>. A Python \<open>str\<close> is a sequence of code points and a
  \<open>char\<close> is a byte; the only character the module looks for is \<open>/\<close>, which is a
  single byte that occurs in no multi-byte UTF-8 sequence, so splitting at it agrees in
  both readings.
\<close>

subsection \<open>Python values and exceptions\<close>

datatype error = TypeError | IndexError | ValueError | ExtensionError

datatype pyval = PNone | PBool bool | PInt int | PStr string | PList "pyval list"

text \<open>A \<open>dict\<close> with string keys, as the \<open>options\<close> argument of a role function is.\<close>

type_synonym options = "string \<rightharpoonup> pyval"

subsection \<open>\<open>os.path.basename\<close> (posixpath)\<close>

text \<open>
  \<^verbatim>\<open>
  def basename(p):
      sep = _get_sep(p)        # '/'
      i = p.rfind(sep) + 1
      return p[i:]
  \<close>
  \<open>rfind\<close> is the highest index at which the separator occurs, or \<open>-1\<close>.
\<close>

fun rfind :: "string \<Rightarrow> char \<Rightarrow> int" where
  "rfind [] c = - 1"
| "rfind (x # xs) c =
     (let r = rfind xs c
      in if r \<noteq> - 1 then r + 1 else if x = c then 0 else - 1)"

definition slice_from :: "string \<Rightarrow> int \<Rightarrow> string" where
  \<comment> \<open>\<open>p[i:]\<close>: a negative start counts from the end, and is clamped at the start.\<close>
  "slice_from p i =
     (if i < 0 then drop (nat (int (length p) + i)) p else drop (nat i) p)"

definition basename :: "string \<Rightarrow> string" where
  "basename p = (let i = rfind p CHR ''/'' + 1 in slice_from p i)"

subsection \<open>\<open>str.format\<close> with automatically numbered fields\<close>

text \<open>
  The template of \<open>make_github_link\<close> has two \<open>{}\<close> fields and no other brace. The model
  reads a template from left to right: \<open>{}\<close> takes the next positional argument (an
  \<open>IndexError\<close> when there is none left), \<open>{{\<close> and \<open>}}\<close> stand for one brace, a
  single brace is a \<open>ValueError\<close>. Arguments are strings, which \<open>format\<close> inserts as
  they are; surplus arguments are ignored. Fields with a name, an index, a conversion or a
  format specification are not covered: the model answers \<open>ValueError\<close> for them.
\<close>

fun format :: "string \<Rightarrow> string list \<Rightarrow> error + string" where
  "format [] args = Inr []"
| "format [c] args =
     (if c = CHR ''{'' \<or> c = CHR ''}'' then Inl ValueError else Inr [c])"
| "format (c # d # cs) args =
     (if c = CHR ''{'' then
        (if d = CHR ''}'' then
           (case args of
              [] \<Rightarrow> Inl IndexError
            | a # as \<Rightarrow> (case format cs as of Inl e \<Rightarrow> Inl e | Inr s \<Rightarrow> Inr (a @ s)))
         else if d = CHR ''{'' then
           (case format cs args of Inl e \<Rightarrow> Inl e | Inr s \<Rightarrow> Inr (CHR ''{'' # s))
         else Inl ValueError)
      else if c = CHR ''}'' then
        (if d = CHR ''}'' then
           (case format cs args of Inl e \<Rightarrow> Inl e | Inr s \<Rightarrow> Inr (CHR ''}'' # s))
         else Inl ValueError)
      else (case format (d # cs) args of Inl e \<Rightarrow> Inl e | Inr s \<Rightarrow> Inr (c # s)))"

subsection \<open>\<open>docutils.nodes.reference\<close>\<close>

text \<open>
  docutils declares the constructor as
  \<^verbatim>\<open>reference(rawsource='', text='', *children, **attributes)\<close>.
  A node is represented by what its constructor receives: the raw source, the text that
  becomes its displayed content (what \<open>astext()\<close> returns), and the keyword
  attributes. This is the call as \<open>local.py\<close> writes it; the body of the constructor, which
  belongs to docutils, follows further down.
\<close>

record node =
  rawsource :: string
  astext :: string
  attributes :: options

text \<open>
  The call \<^verbatim>\<open>nodes.reference(rawsource, text, k=v, ..., **options)\<close>.
  Python merges the explicit keywords with the expanded mapping and raises
  \<open>TypeError\<close> when a key of the mapping repeats an explicit keyword; binding the merged
  keywords to the signature raises \<open>TypeError\<close> when one of them names a parameter that
  already has its positional value (\<open>self\<close>, \<open>rawsource\<close>, \<open>text\<close>).
\<close>

definition positional_names :: "string list" where
  "positional_names = [''self'', ''rawsource'', ''text'']"

definition reference ::
  "string \<Rightarrow> string \<Rightarrow> (string \<times> pyval) list \<Rightarrow> options \<Rightarrow> error + node" where
  "reference rawsource' text' keywords expanded =
     (if list_ex (\<lambda>k. expanded k \<noteq> None) (map fst keywords) then Inl TypeError
      else
        (let attributes' = expanded ++ map_of keywords
         in if list_ex (\<lambda>k. attributes' k \<noteq> None) positional_names then Inl TypeError
            else Inr \<lparr>rawsource = rawsource', astext = text', attributes = attributes'\<rparr>))"

subsection \<open>The role function\<close>

text \<open>
  \<^verbatim>\<open>
  def make_github_link(name, rawtext, text, lineno, inliner, options={}, content=[]):
      url = 'https://github.com/SolidWallOfCode/libswoc/blob/{}/{}'
      ref = 'master'
      node = nodes.reference(rawtext, os.path.basename(text),
                             refuri=url.format(ref, text), **options)
      return [node], []
  \<close>
  The inliner is opaque to the function, so its type is a parameter. The second component
  of the result is the list of system messages, which are nodes too.
\<close>

definition make_github_link ::
  "string \<Rightarrow> string \<Rightarrow> string \<Rightarrow> int \<Rightarrow> 'inliner \<Rightarrow> options \<Rightarrow> pyval list
     \<Rightarrow> error + (node list \<times> node list)" where
  "make_github_link name rawtext text' lineno inliner options content =
     (let url = ''https://github.com/SolidWallOfCode/libswoc/blob/{}/{}'';
          ref = ''master''
      in case format url [ref, text'] of
           Inl e \<Rightarrow> Inl e
         | Inr refuri \<Rightarrow>
             (case reference rawtext (basename text') [(''refuri'', PStr refuri)] options of
                Inl e \<Rightarrow> Inl e
              | Inr node \<Rightarrow> Inr ([node], [])))"

subsection \<open>The body of the constructor\<close>

text \<open>
  What the node holds after the call is decided by docutils. \<open>reference\<close> is a
  \<open>TextElement\<close>, whose constructor makes the text a child unless it is empty and hands the
  rest to \<open>Element\<close> (\<open>docutils/nodes.py\<close>):
  \<^verbatim>\<open>
  class TextElement(Element):
      def __init__(self, rawsource='', text='', *children, **attributes):
          if text != '':
              textnode = Text(text)
              Element.__init__(self, rawsource, textnode, *children, **attributes)
          else:
              Element.__init__(self, rawsource, *children, **attributes)

  class Element(Node):
      list_attributes = ('ids', 'classes', 'names', 'dupnames', 'backrefs')
      def __init__(self, rawsource='', *children, **attributes):
          self.rawsource = rawsource
          self.children = []
          self.extend(children)
          self.attributes = {}
          for att in self.list_attributes:
              self.attributes[att] = []
          for att, value in attributes.items():
              att = att.lower()
              if att in self.list_attributes:
                  self.attributes[att] = value[:]
              else:
                  self.attributes[att] = value
  \<close>
  The keywords are stored in their order, each under its lower-cased name, so a later
  keyword replaces an earlier one of the same lower-cased name. The five list attributes
  are stored as a copy \<open>value[:]\<close>, which raises \<open>TypeError\<close> on a value that cannot be
  sliced. \<open>lower\<close> is modelled on the ASCII letters; other characters stay as they are.
\<close>

definition lower_char :: "char \<Rightarrow> char" where
  "lower_char c =
     (case map_of (zip ''ABCDEFGHIJKLMNOPQRSTUVWXYZ'' ''abcdefghijklmnopqrstuvwxyz'') c of
        None \<Rightarrow> c
      | Some d \<Rightarrow> d)"

definition lower :: "string \<Rightarrow> string" where
  "lower s = map lower_char s"

definition list_attributes :: "string list" where
  "list_attributes = [''ids'', ''classes'', ''names'', ''dupnames'', ''backrefs'']"

text \<open>\<open>value[:]\<close>: a list gives a copy, a string gives itself, anything else raises.\<close>

fun slice_copy :: "pyval \<Rightarrow> error + pyval" where
  "slice_copy (PList xs) = Inr (PList xs)"
| "slice_copy (PStr s) = Inr (PStr s)"
| "slice_copy v = Inl TypeError"

record element =
  element_rawsource :: string
  element_children :: "string list"
  element_attributes :: options

fun store_attributes :: "(string \<times> pyval) list \<Rightarrow> options \<Rightarrow> error + options" where
  "store_attributes [] attrs = Inr attrs"
| "store_attributes ((att, v) # rest) attrs =
     (let att' = lower att
      in if att' \<in> set list_attributes then
           (case slice_copy v of
              Inl e \<Rightarrow> Inl e
            | Inr v' \<Rightarrow> store_attributes rest (attrs(att' \<mapsto> v')))
         else store_attributes rest (attrs(att' \<mapsto> v)))"

definition Element_init ::
  "string \<Rightarrow> string list \<Rightarrow> (string \<times> pyval) list \<Rightarrow> error + element" where
  "Element_init rawsource' children' kwargs =
     (case store_attributes kwargs (map_of (map (\<lambda>att. (att, PList [])) list_attributes)) of
        Inl e \<Rightarrow> Inl e
      | Inr attrs \<Rightarrow>
          Inr \<lparr>element_rawsource = rawsource', element_children = children',
               element_attributes = attrs\<rparr>)"

definition TextElement_init ::
  "string \<Rightarrow> string \<Rightarrow> (string \<times> pyval) list \<Rightarrow> error + element" where
  "TextElement_init rawsource' text' kwargs =
     (if text' \<noteq> [] then Element_init rawsource' [text'] kwargs
      else Element_init rawsource' [] kwargs)"

text \<open>
  The whole constructor call: the binding of the arguments as in \<open>reference\<close>, then the
  body. A \<open>dict\<close> keeps its items in the order of insertion, and the keywords of a call
  are the explicit ones followed by the items of the expanded mapping; so the options are
  given here as the list of their items, with distinct keys.
\<close>

definition reference_element ::
  "string \<Rightarrow> string \<Rightarrow> (string \<times> pyval) list \<Rightarrow> (string \<times> pyval) list \<Rightarrow> error + element" where
  "reference_element rawsource' text' keywords items =
     (case reference rawsource' text' keywords (map_of items) of
        Inl e \<Rightarrow> Inl e
      | Inr n \<Rightarrow> TextElement_init (rawsource n) (astext n) (keywords @ items))"

text \<open>
  The role function once more, with the body of the constructor included. The content is
  opaque to the function, as the inliner is.
\<close>

definition make_github_link_element ::
  "string \<Rightarrow> string \<Rightarrow> string \<Rightarrow> int \<Rightarrow> 'inliner \<Rightarrow> (string \<times> pyval) list \<Rightarrow> 'content
     \<Rightarrow> error + (element list \<times> element list)" where
  "make_github_link_element name rawtext text' lineno inliner items content =
     (let url = ''https://github.com/SolidWallOfCode/libswoc/blob/{}/{}'';
          ref = ''master''
      in case format url [ref, text'] of
           Inl e \<Rightarrow> Inl e
         | Inr refuri \<Rightarrow>
             (case reference_element rawtext (basename text') [(''refuri'', PStr refuri)] items of
                Inl e \<Rightarrow> Inl e
              | Inr node \<Rightarrow> Inr ([node], [])))"

text \<open>\<open>node['refuri']\<close>, the URL a writer renders for the node.\<close>

definition refuri_of :: "element \<Rightarrow> pyval option" where
  "refuri_of el = element_attributes el ''refuri''"

subsection \<open>The objects of a call\<close>

text \<open>
  The parameters \<open>options\<close> and \<open>content\<close> are bound to objects: the dictionary and the
  list that the caller passes or, when the caller omits them, the two defaults, which
  Python creates once, when the \<open>def\<close> statement is executed, and shares between all
  such calls. Objects live in a heap and are known by their address; a new object gets the
  next free address.
\<close>

datatype obj = Dict "(string \<times> pyval) list" | List "pyval list" | Node element | Nodes "nat list"

record heap =
  objects :: "nat \<Rightarrow> obj option"
  next_addr :: nat

definition empty_heap :: heap where
  "empty_heap = \<lparr>objects = (\<lambda>_. None), next_addr = 0\<rparr>"

definition alloc :: "obj \<Rightarrow> heap \<Rightarrow> nat \<times> heap" where
  "alloc ob h =
     (next_addr h,
      h\<lparr>objects := (objects h)(next_addr h \<mapsto> ob), next_addr := Suc (next_addr h)\<rparr>)"

fun alloc_all :: "obj list \<Rightarrow> heap \<Rightarrow> nat list \<times> heap" where
  "alloc_all [] h = ([], h)"
| "alloc_all (ob # obs) h =
     (let (a, h1) = alloc ob h; (as, h2) = alloc_all obs h1 in (a # as, h2))"

text \<open>The \<open>**\<close> expansion reads the items of a mapping; any other object is a \<open>TypeError\<close>.\<close>

definition dict_items :: "heap \<Rightarrow> nat \<Rightarrow> error + (string \<times> pyval) list" where
  "dict_items h r = (case objects h r of Some (Dict items) \<Rightarrow> Inr items | _ \<Rightarrow> Inl TypeError)"

text \<open>
  The function object keeps the addresses of its two defaults. Executing the \<open>def\<close>
  statement evaluates \<open>{}\<close> and \<open>[]\<close>, which allocates them.
\<close>

record function_object =
  default_options :: nat
  default_content :: nat

definition def_make_github_link :: "heap \<Rightarrow> function_object \<times> heap" where
  "def_make_github_link h =
     (let (d, h1) = alloc (Dict []) h; (c, h2) = alloc (List []) h1
      in (\<lparr>default_options = d, default_content = c\<rparr>, h2))"

text \<open>
  A call on the heap. The caller gives the addresses of the options and of the content, or
  omits them. The body reads the items of the options for the \<open>**\<close> expansion, never
  looks at the content, and creates three objects: the node, the list that holds it and
  the empty list of messages. It returns the addresses of the two lists. A call that
  raises leaves the heap as it was.
\<close>

definition make_github_link_obj ::
  "function_object \<Rightarrow> string \<Rightarrow> string \<Rightarrow> string \<Rightarrow> int \<Rightarrow> 'inliner \<Rightarrow> nat option \<Rightarrow> nat option
     \<Rightarrow> heap \<Rightarrow> (error + (nat \<times> nat)) \<times> heap" where
  "make_github_link_obj f name rawtext text' lineno inliner options_arg content_arg h =
     (let options = (case options_arg of None \<Rightarrow> default_options f | Some r \<Rightarrow> r);
          content = (case content_arg of None \<Rightarrow> default_content f | Some r \<Rightarrow> r)
      in case dict_items h options of
           Inl e \<Rightarrow> (Inl e, h)
         | Inr items \<Rightarrow>
             (case make_github_link_element name rawtext text' lineno inliner items content of
                Inl e \<Rightarrow> (Inl e, h)
              | Inr (els, msgs) \<Rightarrow>
                  (let (ns, h1) = alloc_all (map Node els) h;
                       (r1, h2) = alloc (Nodes ns) h1;
                       (ms, h3) = alloc_all (map Node msgs) h2;
                       (r2, h4) = alloc (Nodes ms) h3
                   in (Inr (r1, r2), h4))))"

text \<open>The module just imported: the \<open>def\<close> executed on an empty heap.\<close>

definition loaded :: "function_object \<times> heap" where
  "loaded = def_make_github_link empty_heap"

subsection \<open>The domain class\<close>

text \<open>
  \<^verbatim>\<open>
  class SWOCDomain(Domain):
      name = 'swoc'
      label = 'SWOC'
      data_version = 1
  \<close>
\<close>

record domain =
  name :: string
  label :: string
  data_version :: int

definition SWOCDomain :: domain where
  "SWOCDomain = \<lparr>name = ''swoc'', label = ''SWOC'', data_version = 1\<rparr>"

subsection \<open>The registries of the host\<close>

text \<open>
  \<open>setup\<close> writes into two places. \<open>rst.roles.register_generic_role\<close> is a function of
  the docutils module \<open>docutils.parsers.rst.roles\<close>: it takes no application and stores
  the role in the module's one role table, which every parser of the process consults. It
  overwrites an entry of the same name. \<open>app.add_domain\<close> and \<open>app.add_role_to_domain\<close>
  are methods of the Sphinx application and write into the registry of that application;
  Sphinx raises \<open>ExtensionError\<close> when the domain is registered already, when a role is
  added to a domain that is not registered, and when the role is registered already.

  A process holds the role table and its applications, addressed by a handle. When an
  exception leaves \<open>setup\<close> the model gives the exception only, not the state reached
  before it.
\<close>

datatype node_class = emphasis | literal | strong

datatype role_fn = GenericRole string node_class | make_github_link_fn

record application =
  domains :: "string \<rightharpoonup> domain"
  domain_roles :: "string \<rightharpoonup> (string \<rightharpoonup> role_fn)"

record process =
  role_registry :: "string \<rightharpoonup> role_fn"
  apps :: "nat \<Rightarrow> application"

definition register_generic_role :: "string \<Rightarrow> node_class \<Rightarrow> process \<Rightarrow> process" where
  "register_generic_role canonical_name cls w =
     w\<lparr>role_registry := (role_registry w)(canonical_name \<mapsto> GenericRole canonical_name cls)\<rparr>"

definition add_domain :: "nat \<Rightarrow> domain \<Rightarrow> process \<Rightarrow> error + process" where
  "add_domain app d w =
     (let a = apps w app
      in if domains a (name d) \<noteq> None then Inl ExtensionError
         else Inr (w\<lparr>apps := (apps w)(app := a\<lparr>domains := (domains a)(name d \<mapsto> d)\<rparr>)\<rparr>))"

definition add_role_to_domain ::
  "nat \<Rightarrow> string \<Rightarrow> string \<Rightarrow> role_fn \<Rightarrow> process \<Rightarrow> error + process" where
  "add_role_to_domain app dname rname role w =
     (let a = apps w app
      in if domains a dname = None then Inl ExtensionError
         else
           (let roles = (case domain_roles a dname of None \<Rightarrow> Map.empty | Some r \<Rightarrow> r)
            in if roles rname \<noteq> None then Inl ExtensionError
               else Inr (w\<lparr>apps := (apps w)(app :=
                      a\<lparr>domain_roles := (domain_roles a)(dname \<mapsto> roles(rname \<mapsto> role))\<rparr>)\<rparr>)))"

subsection \<open>The entry point\<close>

text \<open>
  \<^verbatim>\<open>
  def setup(app):
      rst.roles.register_generic_role('arg', nodes.emphasis)
      rst.roles.register_generic_role('const', nodes.literal)
      rst.roles.register_generic_role('pack', nodes.strong)
      app.add_domain(SWOCDomain)
      app.add_role_to_domain('swoc', 'git', make_github_link)
  \<close>
  The function is called \<open>setup_app\<close> here, \<open>setup\<close> being a command of Isabelle.
  It returns nothing; the model returns the process it leaves behind.
\<close>

definition setup_app :: "nat \<Rightarrow> process \<Rightarrow> error + process" where
  "setup_app app w =
     (let w1 = register_generic_role ''arg'' emphasis w;
          w2 = register_generic_role ''const'' literal w1;
          w3 = register_generic_role ''pack'' strong w2
      in case add_domain app SWOCDomain w3 of
           Inl e \<Rightarrow> Inl e
         | Inr w4 \<Rightarrow> add_role_to_domain app ''swoc'' ''git'' make_github_link_fn w4)"

subsection \<open>Predicates used in the statements\<close>

text \<open>
  An options mapping passes the keyword call of \<open>make_github_link\<close> when none of its keys
  is \<open>refuri\<close> or the name of a positional parameter of the constructor. The empty
  default passes, and so does a mapping that carries only \<open>classes\<close>, which is what
  docutils hands to the base role of a customised role.
\<close>

definition keywords_free :: "options \<Rightarrow> bool" where
  "keywords_free options \<longleftrightarrow>
     options ''refuri'' = None \<and> options ''self'' = None \<and>
     options ''rawsource'' = None \<and> options ''text'' = None"


text \<open>
  What the host passes as options. docutils calls a role function with the options of the
  role: none for the role as registered, so that the call gets an empty mapping, and, for a
  role derived from it with the \<open>role\<close> directive, one key \<open>classes\<close> with a list of class
  names. \<open>make_github_link\<close> declares no option of its own, so the directive accepts no
  other.
\<close>

fun is_str :: "pyval \<Rightarrow> bool" where
  "is_str (PStr s) = True"
| "is_str v = False"

fun host_items :: "(string \<times> pyval) list \<Rightarrow> bool" where
  "host_items [] = True"
| "host_items [(k, PList vs)] = (k = ''classes'' \<and> list_all is_str vs)"
| "host_items items = False"

text \<open>No key of the options lower-cases to \<open>refuri\<close>.\<close>

definition refuri_kept :: "(string \<times> pyval) list \<Rightarrow> bool" where
  "refuri_kept items = list_all (\<lambda>k. lower k \<noteq> ''refuri'') (map fst items)"

text \<open>An application in which nothing is registered under \<open>swoc\<close> yet.\<close>

definition swoc_free :: "application \<Rightarrow> bool" where
  "swoc_free a \<longleftrightarrow> domains a ''swoc'' = None \<and> domain_roles a ''swoc'' = None"

text \<open>A process in which nothing has been registered at all.\<close>

definition empty_process :: process where
  "empty_process =
     \<lparr>role_registry = Map.empty,
      apps = (\<lambda>_. \<lparr>domains = Map.empty, domain_roles = Map.empty\<rparr>)\<rparr>"

section \<open>Properties\<close>

subsection \<open>Auxiliary facts\<close>

lemma rfind_lower: "- 1 \<le> rfind p c"
  by (induction p) (auto simp: Let_def)





lemma format_url:
  "format ''https://github.com/SolidWallOfCode/libswoc/blob/{}/{}'' [r, t] =
     Inr (''https://github.com/SolidWallOfCode/libswoc/blob/'' @ r @ ''/'' @ t)"
  by simp

lemma reference_refuri:
  "reference r t [(''refuri'', v)] options =
     (if keywords_free options
      then Inr \<lparr>rawsource = r, astext = t, attributes = options(''refuri'' \<mapsto> v)\<rparr>
      else Inl TypeError)"
  by (auto simp: reference_def keywords_free_def positional_names_def Let_def)

lemma make_github_link_eq:
  "make_github_link nm rawtext t lineno inliner options content =
     (if keywords_free options
      then Inr ([\<lparr>rawsource = rawtext, astext = basename t,
                  attributes = options(''refuri'' \<mapsto>
                    PStr (''https://github.com/SolidWallOfCode/libswoc/blob/master/'' @ t))\<rparr>], [])
      else Inl TypeError)"
  unfolding make_github_link_def Let_def format_url reference_refuri by simp


lemma setup_app_eq:
  "swoc_free (apps w app) \<Longrightarrow>
   setup_app app w =
     Inr (w\<lparr>role_registry := (role_registry w)
              (''arg'' \<mapsto> GenericRole ''arg'' emphasis,
               ''const'' \<mapsto> GenericRole ''const'' literal,
               ''pack'' \<mapsto> GenericRole ''pack'' strong),
            apps := (apps w)(app := (apps w app)
              \<lparr>domains := (domains (apps w app))(''swoc'' \<mapsto> SWOCDomain),
               domain_roles := (domain_roles (apps w app))
                 (''swoc'' \<mapsto> [''git'' \<mapsto> make_github_link_fn])\<rparr>)\<rparr>)"
  by (simp add: setup_app_def add_domain_def add_role_to_domain_def
      register_generic_role_def SWOCDomain_def swoc_free_def Let_def)

lemma setup_app_taken:
  "domains (apps w app) ''swoc'' \<noteq> None \<Longrightarrow> setup_app app w = Inl ExtensionError"
  by (simp add: setup_app_def add_domain_def add_role_to_domain_def
      register_generic_role_def SWOCDomain_def swoc_free_def Let_def)

lemma lower_refuri: "lower ''refuri'' = ''refuri''"
  by (simp add: lower_def lower_char_def)

lemma store_attributes_other:
  "store_attributes kws attrs = Inr attrs' \<Longrightarrow> list_all (\<lambda>k. lower k \<noteq> x) (map fst kws) \<Longrightarrow>
   attrs' x = attrs x"
proof (induction kws arbitrary: attrs)
  case Nil
  then show ?case by simp
next
  case (Cons kv kws)
  obtain k v where kv: "kv = (k, v)" by (cases kv)
  from Cons.prems show ?case
    unfolding kv
    by (auto simp: Let_def split: if_splits sum.splits dest!: Cons.IH)
qed

lemma keywords_free_host: "host_items items \<Longrightarrow> keywords_free (map_of items)"
  by (induction items rule: host_items.induct) (simp_all add: keywords_free_def)

lemma refuri_kept_host: "host_items items \<Longrightarrow> refuri_kept items"
  by (induction items rule: host_items.induct) (simp_all add: refuri_kept_def lower_def lower_char_def)

lemma store_attributes_host:
  "host_items items \<Longrightarrow> \<exists>attrs'. store_attributes items attrs = Inr attrs'"
  by (induction items rule: host_items.induct)
    (simp_all add: lower_def lower_char_def list_attributes_def)

lemma reference_element_refuri:
  assumes "reference_element r t [(''refuri'', u)] items = Inr el" and "refuri_kept items"
  shows "refuri_of el = Some u"
proof -
  let ?init = "map_of (map (\<lambda>att. (att, PList [])) list_attributes)"
  from assms(1) obtain attrs where
    s: "store_attributes items (?init(''refuri'' \<mapsto> u)) = Inr attrs"
    and el: "element_attributes el = attrs"
    by (auto simp: reference_element_def reference_refuri TextElement_init_def Element_init_def
        lower_refuri list_attributes_def split: if_splits sum.splits)
  from store_attributes_other [OF s] assms(2) have "attrs ''refuri'' = Some u"
    by (simp add: refuri_kept_def)
  with el show ?thesis
    by (simp add: refuri_of_def)
qed

lemma reference_element_host:
  assumes "host_items items"
  shows "\<exists>el. reference_element r t [(''refuri'', u)] items = Inr el"
proof -
  let ?init = "map_of (map (\<lambda>att. (att, PList [])) list_attributes)"
  from store_attributes_host [OF assms] obtain attrs where
    "store_attributes items (?init(''refuri'' \<mapsto> u)) = Inr attrs"
    by blast
  with keywords_free_host [OF assms] show ?thesis
    by (simp add: reference_element_def reference_refuri TextElement_init_def Element_init_def
        lower_refuri list_attributes_def)
qed

lemma make_github_link_element_host:
  assumes "host_items items"
  shows "\<exists>el. make_github_link_element role rawtext t lineno inliner items content = Inr ([el], []) \<and>
     refuri_of el =
       Some (PStr (''https://github.com/SolidWallOfCode/libswoc/blob/master/'' @ t))"
proof -
  let ?u = "PStr (''https://github.com/SolidWallOfCode/libswoc/blob/master/'' @ t)"
  from reference_element_host [OF assms] obtain el where
    el: "reference_element rawtext (basename t) [(''refuri'', ?u)] items = Inr el"
    by blast
  from reference_element_refuri [OF el refuri_kept_host [OF assms]] el show ?thesis
    by (simp add: make_github_link_element_def format_url)
qed

lemma alloc_frame:
  "a < next_addr h \<Longrightarrow> objects (snd (alloc ob h)) a = objects h a"
  by (simp add: alloc_def)

lemma alloc_next: "next_addr (snd (alloc ob h)) = Suc (next_addr h)"
  by (simp add: alloc_def)

lemma alloc_all_frame:
  "a < next_addr h \<Longrightarrow>
   objects (snd (alloc_all obs h)) a = objects h a \<and> next_addr h \<le> next_addr (snd (alloc_all obs h))"
proof (induction obs arbitrary: h)
  case Nil
  then show ?case by simp
next
  case (Cons ob obs)
  have "a < next_addr (snd (alloc ob h))"
    using Cons.prems by (simp add: alloc_next)
  from Cons.IH [OF this] Cons.prems show ?case
    by (simp add: split_beta Let_def alloc_frame alloc_next)
qed

lemma make_github_link_obj_frame:
  assumes "a < next_addr h"
  shows "objects (snd (make_github_link_obj f role rawtext t lineno inliner oa ca h)) a = objects h a"
proof -
  have step: "objects (snd (alloc ob2 (snd (alloc_all obs2 (snd (alloc ob1 (snd (alloc_all obs1 h)))))))) a
      = objects h a" for obs1 ob1 obs2 ob2
  proof -
    let ?h1 = "snd (alloc_all obs1 h)"
    let ?h2 = "snd (alloc ob1 ?h1)"
    let ?h3 = "snd (alloc_all obs2 ?h2)"
    have 1: "objects ?h1 a = objects h a" "a < next_addr ?h1"
      using alloc_all_frame [OF assms, of obs1] assms by auto
    have 2: "objects ?h2 a = objects h a" "a < next_addr ?h2"
      using 1 by (simp_all add: alloc_frame alloc_next)
    have 3: "objects ?h3 a = objects h a" "a < next_addr ?h3"
      using alloc_all_frame [OF 2(2), of obs2] 2 by auto
    show ?thesis
      using 3 by (simp add: alloc_frame)
  qed
  show ?thesis
    by (auto simp: make_github_link_obj_def Let_def split_beta step split: sum.splits)
qed

subsection \<open>The link built from a path\<close>





text \<open>
  C3, as amended. For every path and all options of which no key lower-cases to
  \<open>refuri\<close>, in particular for those the host passes, a call that returns gives a node
  whose \<open>refuri\<close> is the fixed prefix, the literal \<open>master\<close>, a slash and the path as
  given. The function has no other ref to put there.
\<close>

theorem make_github_link_refuri_master:
  assumes "refuri_kept items"
    and "make_github_link_element role rawtext t lineno inliner items content = Inr (ns, ms)"
  shows "map refuri_of ns =
     [Some (PStr (''https://github.com/SolidWallOfCode/libswoc/blob/'' @ ''master'' @ ''/'' @ t))]"
proof -
  let ?u = "PStr (''https://github.com/SolidWallOfCode/libswoc/blob/'' @ ''master'' @ ''/'' @ t)"
  from assms(2) obtain el where
    el: "reference_element rawtext (basename t) [(''refuri'', ?u)] items = Inr el"
    and ns: "ns = [el]"
    by (auto simp: make_github_link_element_def format_url split: sum.splits)
  from reference_element_refuri [OF el assms(1)] ns show ?thesis
    by simp
qed

theorem make_github_link_refuri_master_witness:
  "refuri_kept [(''classes'', PList [PStr ''ref''])] \<and>
   \<not> isl (make_github_link_element ''git'' [] ''doc/{}/../x y'' 3 ()
            [(''classes'', PList [PStr ''ref''])] ()) \<and>
   map refuri_of
     (fst (projr (make_github_link_element ''git'' [] ''doc/{}/../x y'' 3 ()
                   [(''classes'', PList [PStr ''ref''])] ()))) =
     [Some (PStr ''https://github.com/SolidWallOfCode/libswoc/blob/master/doc/{}/../x y'')]"
proof -
  let ?r = "make_github_link_element ''git'' [] ''doc/{}/../x y'' 3 ()
              [(''classes'', PList [PStr ''ref''])] ()"
  have h: "refuri_kept [(''classes'', PList [PStr ''ref''])]"
    by (simp add: refuri_kept_def lower_def lower_char_def)
  have "\<exists>el. reference_element [] (basename ''doc/{}/../x y'')
      [(''refuri'', PStr ''https://github.com/SolidWallOfCode/libswoc/blob/master/doc/{}/../x y'')]
      [(''classes'', PList [PStr ''ref''])] = Inr el"
    by (rule reference_element_host) simp
  then have ok: "\<not> isl ?r"
    by (auto simp: make_github_link_element_def format_url)
  then have r: "?r = Inr (fst (projr ?r), snd (projr ?r))"
    by (cases ?r) simp_all
  from make_github_link_refuri_master [OF h r] h ok show ?thesis
    by simp
qed

text \<open>
  An option can replace the URL, though: the constructor stores \<open>Refuri\<close> under
  \<open>refuri\<close>, after the keyword of the call, and the node then carries the value of the
  option.
\<close>

theorem make_github_link_refuri_replaced:
  "map refuri_of
     (fst (projr (make_github_link_element ''git'' [] ''README.md'' 7 ()
                   [(''Refuri'', PStr ''x'')] ()))) = [Some (PStr ''x'')] \<and>
   \<not> isl (make_github_link_element ''git'' [] ''README.md'' 7 () [(''Refuri'', PStr ''x'')] ())"
  by (simp add: make_github_link_element_def reference_element_def reference_refuri
      keywords_free_def TextElement_init_def Element_init_def lower_def lower_char_def
      list_attributes_def refuri_of_def basename_def slice_from_def)

subsection \<open>Success and the shape of the result\<close>

text \<open>
  C4. With the options the host passes, the role succeeds for every path and every
  content: the call returns one node, which carries the \<open>refuri\<close>, however malformed the
  path is.
\<close>

theorem make_github_link_host_succeeds:
  assumes "host_items items"
  shows "\<exists>el. make_github_link_element role rawtext t lineno inliner items content = Inr ([el], []) \<and>
     refuri_of el =
       Some (PStr (''https://github.com/SolidWallOfCode/libswoc/blob/master/'' @ t))"
  using assms by (rule make_github_link_element_host)

theorem make_github_link_host_succeeds_witness:
  "host_items [(''classes'', PList [PStr ''ref''])] \<and>
   \<not> isl (make_github_link_element ''git'' [] ''//{0}//..'' 7 ()
            [(''classes'', PList [PStr ''ref''])] [PStr ''body'']) \<and>
   host_items [] \<and>
   \<not> isl (make_github_link_element ''git'' [] [] 7 () [] [PStr ''body''])"
proof -
  have h: "host_items [(''classes'', PList [PStr ''ref''])]" "host_items []"
    by simp_all
  from make_github_link_host_succeeds [OF h(1), of "''git''" "[]" "''//{0}//..''" 7 "()" "[PStr ''body'']"]
    make_github_link_host_succeeds [OF h(2), of "''git''" "[]" "[]" 7 "()" "[PStr ''body'']"]
  show ?thesis using h by auto
qed

text \<open>
  C5. Whatever the arguments, what a call returns is a pair of a list with exactly one
  element, the reference node made from the raw text and the base name of the path, and an
  empty list of messages.
\<close>

theorem make_github_link_returns:
  assumes "make_github_link role rawtext t lineno inliner options content = Inr (ns, ms)"
  shows "(\<exists>n. ns = [n] \<and> rawsource n = rawtext \<and> astext n = basename t) \<and> ms = []"
  using assms by (auto simp: make_github_link_eq split: if_splits)

theorem make_github_link_returns_witness:
  "make_github_link ''git'' ''raw'' ''a/b'' 7 () Map.empty [] =
     Inr ([\<lparr>rawsource = ''raw'', astext = ''b'',
            attributes = [''refuri'' \<mapsto>
              PStr ''https://github.com/SolidWallOfCode/libswoc/blob/master/a/b'']\<rparr>], []) \<and>
   rawsource \<lparr>rawsource = ''raw'', astext = ''b'',
            attributes = [''refuri'' \<mapsto>
              PStr ''https://github.com/SolidWallOfCode/libswoc/blob/master/a/b'']\<rparr> = ''raw''"
proof -
  have r: "make_github_link ''git'' ''raw'' ''a/b'' 7 () Map.empty [] =
     Inr ([\<lparr>rawsource = ''raw'', astext = ''b'',
            attributes = [''refuri'' \<mapsto>
              PStr ''https://github.com/SolidWallOfCode/libswoc/blob/master/a/b'']\<rparr>], [])"
    by (simp add: make_github_link_eq keywords_free_def basename_def slice_from_def)
  from make_github_link_returns [OF r] r show ?thesis
    by simp
qed

subsection \<open>Edge cases of the path\<close>





subsection \<open>What the result depends on, and what a call leaves alone\<close>

text \<open>
  C10. A call gives the same result and the same heap whatever the role name, the line
  number, the inliner and the content are, the raw text, the path and the options being the
  same. Every object that existed before the call is after it what it was before: the
  dictionary and the list bound to \<open>options\<close> and \<open>content\<close>, whether passed or the
  shared defaults, and all others. The call only adds objects.
\<close>

theorem make_github_link_depends_on:
  "make_github_link_obj f role1 rawtext t lineno1 inliner1 options_arg content1 h =
   make_github_link_obj f role2 rawtext t lineno2 inliner2 options_arg content2 h \<and>
   (\<forall>a. a < next_addr h \<longrightarrow>
      objects (snd (make_github_link_obj f role1 rawtext t lineno1 inliner1 options_arg content1 h)) a
        = objects h a)"
proof
  show "make_github_link_obj f role1 rawtext t lineno1 inliner1 options_arg content1 h =
    make_github_link_obj f role2 rawtext t lineno2 inliner2 options_arg content2 h"
    unfolding make_github_link_obj_def make_github_link_element_def Let_def
    by (rule refl)
next
  show "\<forall>a. a < next_addr h \<longrightarrow>
      objects (snd (make_github_link_obj f role1 rawtext t lineno1 inliner1 options_arg content1 h)) a
        = objects h a"
    by (simp add: make_github_link_obj_frame)
qed

theorem make_github_link_depends_on_witness:
  "default_options (fst loaded) < next_addr (snd loaded) \<and>
   default_content (fst loaded) < next_addr (snd loaded) \<and>
   objects (snd loaded) (default_options (fst loaded)) = Some (Dict []) \<and>
   objects (snd loaded) (default_content (fst loaded)) = Some (List []) \<and>
   objects (snd (make_github_link_obj (fst loaded) ''git'' ''raw'' ''a/b'' 7 () None None (snd loaded)))
     (default_options (fst loaded)) = Some (Dict []) \<and>
   objects (snd (make_github_link_obj (fst loaded) ''git'' ''raw'' ''a/b'' 7 () None None (snd loaded)))
     (default_content (fst loaded)) = Some (List []) \<and>
   make_github_link_obj (fst loaded) ''git'' ''raw'' ''a/b'' 7 () None None (snd loaded) =
     make_github_link_obj (fst loaded) ''other'' ''raw'' ''a/b'' 99 True None (Some 0) (snd loaded) \<and>
   \<not> isl (fst (make_github_link_obj (fst loaded) ''git'' ''raw'' ''a/b'' 7 () None None (snd loaded)))"
proof -
  have l: "default_options (fst loaded) < next_addr (snd loaded)"
    "default_content (fst loaded) < next_addr (snd loaded)"
    "objects (snd loaded) (default_options (fst loaded)) = Some (Dict [])"
    "objects (snd loaded) (default_content (fst loaded)) = Some (List [])"
    by (simp_all add: loaded_def def_make_github_link_def alloc_def empty_heap_def)
  have ok: "\<not> isl (fst (make_github_link_obj (fst loaded) ''git'' ''raw'' ''a/b'' 7 () None None
      (snd loaded)))"
  proof -
    have "dict_items (snd loaded) (default_options (fst loaded)) = Inr []"
      using l(3) by (simp add: dict_items_def)
    moreover have "host_items []"
      by simp
    then obtain el where
      "make_github_link_element ''git'' ''raw'' ''a/b'' 7 () [] (default_content (fst loaded))
         = Inr ([el], [])"
      using make_github_link_element_host [where items = "[]" and role = "''git''"
          and rawtext = "''raw''" and t = "''a/b''" and lineno = 7 and inliner = "()"
          and content = "default_content (fst loaded)"]
      by blast
    ultimately show ?thesis
      by (simp add: make_github_link_obj_def Let_def split_beta)
  qed
  note t = make_github_link_depends_on [of "fst loaded" "''git''" "''raw''" "''a/b''" 7 "()" None None
      "snd loaded" "''other''" 99 True "Some 0"]
  from t have eq: "make_github_link_obj (fst loaded) ''git'' ''raw'' ''a/b'' 7 () None None (snd loaded) =
      make_github_link_obj (fst loaded) ''other'' ''raw'' ''a/b'' 99 True None (Some 0) (snd loaded)"
    by (rule conjunct1)
  from t have frame: "\<forall>a. a < next_addr (snd loaded) \<longrightarrow>
      objects (snd (make_github_link_obj (fst loaded) ''git'' ''raw'' ''a/b'' 7 () None None
        (snd loaded))) a = objects (snd loaded) a"
    by (rule conjunct2)
  from frame l(1) l(3) have o: "objects (snd (make_github_link_obj (fst loaded) ''git'' ''raw'' ''a/b''
      7 () None None (snd loaded))) (default_options (fst loaded)) = Some (Dict [])"
    by metis
  from frame l(2) l(4) have c: "objects (snd (make_github_link_obj (fst loaded) ''git'' ''raw'' ''a/b''
      7 () None None (snd loaded))) (default_content (fst loaded)) = Some (List [])"
    by metis
  from l o c eq ok show ?thesis
    by blast
qed

subsection \<open>Registration\<close>

text \<open>
  C7. Called with an application in which \<open>swoc\<close> is not registered yet, the entry point
  succeeds and changes exactly this: the role table gets \<open>arg\<close>, \<open>const\<close> and
  \<open>pack\<close> as generic roles of the node classes emphasis, literal and strong; the
  application gets the domain \<open>SWOCDomain\<close> under its name \<open>swoc\<close>; and the role
  \<open>git\<close> of the domain \<open>swoc\<close> is \<open>make_github_link\<close>.
\<close>

theorem setup_app_registrations:
  assumes "swoc_free (apps w app)"
  shows "setup_app app w =
     Inr (w\<lparr>role_registry := (role_registry w)
              (''arg'' \<mapsto> GenericRole ''arg'' emphasis,
               ''const'' \<mapsto> GenericRole ''const'' literal,
               ''pack'' \<mapsto> GenericRole ''pack'' strong),
            apps := (apps w)(app := (apps w app)
              \<lparr>domains := (domains (apps w app))(''swoc'' \<mapsto> SWOCDomain),
               domain_roles := (domain_roles (apps w app))
                 (''swoc'' \<mapsto> [''git'' \<mapsto> make_github_link_fn])\<rparr>)\<rparr>) \<and>
     name SWOCDomain = ''swoc''"
  using assms by (simp add: setup_app_eq SWOCDomain_def)

theorem setup_app_registrations_witness:
  "swoc_free (apps empty_process 0) \<and>
   setup_app 0 empty_process =
     Inr \<lparr>role_registry =
            [''arg'' \<mapsto> GenericRole ''arg'' emphasis,
             ''const'' \<mapsto> GenericRole ''const'' literal,
             ''pack'' \<mapsto> GenericRole ''pack'' strong],
          apps = (\<lambda>_. \<lparr>domains = Map.empty, domain_roles = Map.empty\<rparr>)
            (0 := \<lparr>domains = [''swoc'' \<mapsto> SWOCDomain],
                   domain_roles = [''swoc'' \<mapsto> [''git'' \<mapsto> make_github_link_fn]]\<rparr>)\<rparr>"
proof -
  have h: "swoc_free (apps empty_process 0)"
    by (simp add: swoc_free_def empty_process_def)
  from setup_app_registrations [OF h] h show ?thesis
    by (simp add: empty_process_def)
qed

text \<open>
  C8, as amended. Two different applications, neither with \<open>swoc\<close> registered: both
  calls succeed in either order and end in the same process. Each application gets the
  \<open>swoc\<close> domain and its \<open>git\<close> role in its own registry, a call changes the registry
  of no other application, and each application ends as a call on it alone would leave it.
  The generic roles \<open>arg\<close>, \<open>const\<close> and \<open>pack\<close> go to the role table of docutils,
  which is one for the process: the first call writes it and the second writes the same
  entries again.
\<close>

theorem setup_app_two_instances:
  assumes "a \<noteq> b" and "swoc_free (apps w a)" and "swoc_free (apps w b)"
  shows "\<exists>wa wb wab.
     setup_app a w = Inr wa \<and> setup_app b w = Inr wb \<and>
     setup_app b wa = Inr wab \<and> setup_app a wb = Inr wab \<and>
     apps wab a = apps wa a \<and> apps wab b = apps wb b \<and>
     domains (apps wab a) ''swoc'' = Some SWOCDomain \<and>
     domains (apps wab b) ''swoc'' = Some SWOCDomain \<and>
     domain_roles (apps wab a) ''swoc'' = Some [''git'' \<mapsto> make_github_link_fn] \<and>
     domain_roles (apps wab b) ''swoc'' = Some [''git'' \<mapsto> make_github_link_fn] \<and>
     (\<forall>c. c \<noteq> a \<and> c \<noteq> b \<longrightarrow> apps wab c = apps w c) \<and>
     role_registry wa = (role_registry w)
       (''arg'' \<mapsto> GenericRole ''arg'' emphasis,
        ''const'' \<mapsto> GenericRole ''const'' literal,
        ''pack'' \<mapsto> GenericRole ''pack'' strong) \<and>
     role_registry wb = role_registry wa \<and> role_registry wab = role_registry wa"
proof -
  let ?wa = "projr (setup_app a w)" and ?wb = "projr (setup_app b w)"
  have a: "setup_app a w = Inr ?wa" and b: "setup_app b w = Inr ?wb"
    using assms by (simp_all add: setup_app_eq)
  have fa: "swoc_free (apps ?wb a)" and fb: "swoc_free (apps ?wa b)"
    using assms by (simp_all add: setup_app_eq)
  let ?wab = "projr (setup_app b ?wa)"
  have ab: "setup_app b ?wa = Inr ?wab"
    using fb by (simp add: setup_app_eq)
  have ba: "setup_app a ?wb = Inr ?wab"
    using assms fa fb by (simp add: setup_app_eq fun_upd_twist)
  have "apps ?wab a = apps ?wa a" "apps ?wab b = apps ?wb b"
    "domains (apps ?wab a) ''swoc'' = Some SWOCDomain"
    "domains (apps ?wab b) ''swoc'' = Some SWOCDomain"
    "domain_roles (apps ?wab a) ''swoc'' = Some [''git'' \<mapsto> make_github_link_fn]"
    "domain_roles (apps ?wab b) ''swoc'' = Some [''git'' \<mapsto> make_github_link_fn]"
    "\<forall>c. c \<noteq> a \<and> c \<noteq> b \<longrightarrow> apps ?wab c = apps w c"
    "role_registry ?wa = (role_registry w)
       (''arg'' \<mapsto> GenericRole ''arg'' emphasis,
        ''const'' \<mapsto> GenericRole ''const'' literal,
        ''pack'' \<mapsto> GenericRole ''pack'' strong)"
    "role_registry ?wb = role_registry ?wa" "role_registry ?wab = role_registry ?wa"
    using assms fa fb by (simp_all add: setup_app_eq)
  with a b ab ba show ?thesis by blast
qed

theorem setup_app_two_instances_witness:
  "(0::nat) \<noteq> 1 \<and> swoc_free (apps empty_process 0) \<and> swoc_free (apps empty_process 1) \<and>
   setup_app 1 (projr (setup_app 0 empty_process)) =
     setup_app 0 (projr (setup_app 1 empty_process)) \<and>
   \<not> isl (setup_app 1 (projr (setup_app 0 empty_process))) \<and>
   apps (projr (setup_app 1 (projr (setup_app 0 empty_process)))) 0 =
     apps (projr (setup_app 0 empty_process)) 0 \<and>
   domains (apps (projr (setup_app 1 (projr (setup_app 0 empty_process)))) 1) ''swoc'' =
     Some SWOCDomain \<and>
   role_registry (projr (setup_app 1 (projr (setup_app 0 empty_process)))) =
     role_registry (projr (setup_app 0 empty_process))"
proof -
  have h: "(0::nat) \<noteq> 1" "swoc_free (apps empty_process 0)" "swoc_free (apps empty_process 1)"
    by (simp_all add: swoc_free_def empty_process_def)
  from setup_app_two_instances [OF h] obtain wa wb wab where
    "setup_app 0 empty_process = Inr wa" "setup_app 1 empty_process = Inr wb"
    "setup_app 1 wa = Inr wab" "setup_app 0 wb = Inr wab"
    "apps wab 0 = apps wa 0" "domains (apps wab 1) ''swoc'' = Some SWOCDomain"
    "role_registry wab = role_registry wa"
    by blast
  with h show ?thesis by simp
qed

text \<open>
  So there is state shared between the instances: a call for application 0 alone changes
  the role table with which every application of the process parses, application 1
  included, whose own registry the call does not touch.
\<close>

theorem setup_app_shared_role_table:
  "\<not> isl (setup_app 0 empty_process) \<and>
   role_registry empty_process ''arg'' = None \<and>
   role_registry (projr (setup_app 0 empty_process)) ''arg'' = Some (GenericRole ''arg'' emphasis) \<and>
   apps (projr (setup_app 0 empty_process)) 1 = apps empty_process 1"
proof -
  have "swoc_free (apps empty_process 0)"
    by (simp add: swoc_free_def empty_process_def)
  then show ?thesis
    by (simp add: setup_app_eq) (simp add: empty_process_def)
qed

end
